theory Spec2Isabelle
  imports Main
begin

section \<open>Paths and stream output\<close>

text \<open>
  A \<^verbatim>\<open>jsonv::path\<close> is an ordered sequence of path elements, each an object key
  or an array index. The class lives in \<^verbatim>\<open>jsonv/path.hpp\<close>; the extraction code
  only tests a path for emptiness, appends one path to another (\<^verbatim>\<open>+=\<close>) and
  writes it to a stream.
\<close>

datatype path_element = Object_key string | Array_index nat

type_synonym path = "path_element list"

text \<open>
  \<^verbatim>\<open>os << n\<close> for an unsigned integer: its decimal digits. \<open>digit_char\<close> is
  only applied to a number below ten.
\<close>

definition digit_char :: "nat \<Rightarrow> char" where
  "digit_char d = ''0123456789'' ! d"

fun to_decimal :: "nat \<Rightarrow> string" where
  "to_decimal n =
     (if n < 10 then [digit_char n] else to_decimal (n div 10) @ [digit_char (n mod 10)])"

declare to_decimal.simps [simp del]

text \<open>
  Modelled from the spec: the stream output of a path (\<^verbatim>\<open>operator<<\<close> of
  \<^verbatim>\<open>jsonv/path.hpp\<close>, not among the sources). The spec describes the rendering
  as dotted keys and bracketed indices, \<^verbatim>\<open>.a.b[3]\<close>.
\<close>

fun path_element_to_string :: "path_element \<Rightarrow> string" where
  "path_element_to_string (Object_key k) = ''.'' @ k"
| "path_element_to_string (Array_index i) = ''['' @ to_decimal i @ '']''"

definition path_to_string :: "path \<Rightarrow> string" where
  "path_to_string p = concat (map path_element_to_string p)"

section \<open>Exceptions, problems and extraction errors\<close>

text \<open>
  What a \<^verbatim>\<open>catch\<close> chain of the extraction code can tell apart: an
  \<^verbatim>\<open>extraction_error\<close>, any other \<^verbatim>\<open>std::exception\<close> (with its
  \<^verbatim>\<open>what()\<close>), and an exception of a type outside that hierarchy (with the name
  \<^verbatim>\<open>current_exception_type_name()\<close> reports for it). A
  \<^verbatim>\<open>std::exception_ptr\<close> is an \<open>exn option\<close>, \<open>None\<close> the null pointer.

  An \<^verbatim>\<open>extraction_error\<close> is a \<^verbatim>\<open>std::runtime_error\<close>: it stores the message
  computed at construction, and its problem list. A \<^verbatim>\<open>problem\<close> has the private
  members \<^verbatim>\<open>_path\<close>, \<^verbatim>\<open>_message\<close> and \<^verbatim>\<open>_cause\<close>.
\<close>

datatype exn =
    Std_exception string
  | Thrown_extraction_error extraction_error
  | Unknown_exception string
and extraction_error =
    Extraction_error (error_what: string) (error_problems: "problem list")
and problem =
    Problem (problem_path: path) (problem_message: string) (problem_nested_ptr: "exn option")

subsection \<open>\<^verbatim>\<open>extraction_error::problem\<close>\<close>

definition make_problem :: "path \<Rightarrow> string \<Rightarrow> exn option \<Rightarrow> problem" where
  "make_problem p message cause =
     Problem p (if message = [] then ''Unknown problem'' else message) cause"

definition make_problem_no_cause :: "path \<Rightarrow> string \<Rightarrow> problem" where
  "make_problem_no_cause p message = make_problem p message None"

text \<open>
  The message the lambda of \<^verbatim>\<open>problem(path, exception_ptr)\<close> computes by rethrowing
  the cause: \<^verbatim>\<open>catch (const std::exception& ex)\<close> takes every
  \<^verbatim>\<open>std::exception\<close>, an \<^verbatim>\<open>extraction_error\<close> included. The cause is an
  \<open>exn\<close>: \<^verbatim>\<open>std::rethrow_exception\<close> requires a non-null pointer.
\<close>

fun message_of_cause :: "exn \<Rightarrow> string" where
  "message_of_cause (Std_exception w) = w"
| "message_of_cause (Thrown_extraction_error e) = error_what e"
| "message_of_cause (Unknown_exception type_name) = ''Exception with type '' @ type_name"

definition make_problem_from_cause :: "path \<Rightarrow> exn \<Rightarrow> problem" where
  "make_problem_from_cause p cause = make_problem p (message_of_cause cause) (Some cause)"

subsection \<open>\<^verbatim>\<open>extraction_error\<close>\<close>

definition endl :: string where
  "endl = [CHR 0x0A]"

definition write_problem :: "string \<Rightarrow> problem \<Rightarrow> string" where
  "write_problem os p =
     (if problem_path p \<noteq> []
      then os @ '' at '' @ path_to_string (problem_path p) @ '': ''
      else os) @ problem_message p"

text \<open>The range-based \<^verbatim>\<open>for\<close> loop of the branch for more than one problem.\<close>

fun write_problem_lines :: "string \<Rightarrow> problem list \<Rightarrow> string" where
  "write_problem_lines os [] = os"
| "write_problem_lines os (p # ps) = write_problem_lines (write_problem (os @ endl @ '' -'') p) ps"

definition make_extraction_error_errmsg :: "problem list \<Rightarrow> string" where
  "make_extraction_error_errmsg problems =
     (if length problems = 0 then ''Extraction error with unspecified problem''
      else if length problems = 1 then write_problem ''Extraction error'' (problems ! 0)
      else if length problems > 1
        then write_problem_lines (to_decimal (length problems) @ '' extraction errors:'') problems
      else [])"

definition make_extraction_error :: "problem list \<Rightarrow> extraction_error" where
  "make_extraction_error problems =
     Extraction_error (make_extraction_error_errmsg problems) problems"

definition make_extraction_error_at :: "path \<Rightarrow> string \<Rightarrow> exn option \<Rightarrow> extraction_error" where
  "make_extraction_error_at p message cause = make_extraction_error [make_problem p message cause]"

definition make_extraction_error_no_cause :: "path \<Rightarrow> string \<Rightarrow> extraction_error" where
  "make_extraction_error_no_cause p message = make_extraction_error [make_problem_no_cause p message]"

definition make_extraction_error_from_cause :: "path \<Rightarrow> exn \<Rightarrow> extraction_error" where
  "make_extraction_error_from_cause p cause = make_extraction_error [make_problem_from_cause p cause]"

definition error_path :: "extraction_error \<Rightarrow> path" where
  "error_path e = (case error_problems e of [] \<Rightarrow> [] | p # _ \<Rightarrow> problem_path p)"

definition error_nested_ptr :: "extraction_error \<Rightarrow> exn option" where
  "error_nested_ptr e = (case error_problems e of [] \<Rightarrow> None | p # _ \<Rightarrow> problem_nested_ptr p)"

section \<open>Extraction options\<close>

datatype on_error = fail_immediately | collect_all

datatype duplicate_key_action = replace | ignore | exception

record extract_options =
  failure_mode :: on_error
  max_failures :: nat
  on_duplicate_key :: duplicate_key_action

text \<open>
  \<^verbatim>\<open>extract_options()\<close>: no member is set by a constructor among the sources, so each
  takes its default member initialiser.
\<close>

definition default_extract_options :: extract_options where
  "default_extract_options =
     \<lparr>failure_mode = fail_immediately, max_failures = 10, on_duplicate_key = replace\<rparr>"

section \<open>The extraction context\<close>

text \<open>
  The members the extraction code reads and writes: \<^verbatim>\<open>_options\<close>,
  \<^verbatim>\<open>_problems\<close>, and the \<^verbatim>\<open>_path\<close> that the constructor initialises and
  \<^verbatim>\<open>extract_sub\<close> extends. The registry (\<^verbatim>\<open>formats()\<close> of the context
  base) is passed to the functions that call it.
\<close>

record extraction_context =
  m_options :: extract_options
  m_problems :: "problem list"
  m_path :: path

text \<open>\<^verbatim>\<open>jsonv::path path() const { return jsonv::path(); }\<close>\<close>

definition context_path :: "extraction_context \<Rightarrow> path" where
  "context_path c = []"

text \<open>
  The registry's \<^verbatim>\<open>extract(type, from, into, context)\<close> and the value's
  \<^verbatim>\<open>at_path(subpath)\<close> are external: each either returns or throws. What a
  successful extraction leaves in \<^verbatim>\<open>into\<close> is the \<open>Inr\<close> result.
\<close>

type_synonym ('t, 'v, 'a) formats = "'t \<Rightarrow> 'v \<Rightarrow> extraction_context \<Rightarrow> exn + 'a"

type_synonym 'v at_path = "'v \<Rightarrow> path \<Rightarrow> exn + 'v"

text \<open>
  The type-erased \<^verbatim>\<open>extract(type, from, into)\<close> is \<open>extract_into\<close> here.
  The \<^verbatim>\<open>catch\<close> chain shared by \<^verbatim>\<open>extract\<close> and \<^verbatim>\<open>extract_sub\<close>,
  in the order of its handlers; \<open>p\<close> is the path the handlers pass to the new error.
\<close>

fun catch_and_wrap :: "path \<Rightarrow> exn \<Rightarrow> exn" where
  "catch_and_wrap p (Thrown_extraction_error e) = Thrown_extraction_error e"
| "catch_and_wrap p (Std_exception w) =
     Thrown_extraction_error (make_extraction_error_at p w (Some (Std_exception w)))"
| "catch_and_wrap p (Unknown_exception type_name) =
     Thrown_extraction_error
       (make_extraction_error_at p (''Exception with type '' @ type_name)
          (Some (Unknown_exception type_name)))"

definition extract_into :: "('t, 'v, 'a) formats \<Rightarrow> extraction_context \<Rightarrow> 't \<Rightarrow> 'v \<Rightarrow> exn + 'a" where
  "extract_into fmts c type from =
     (case fmts type from c of
        Inr into \<Rightarrow> Inr into
      | Inl ex \<Rightarrow> Inl (catch_and_wrap (context_path c) ex))"

definition extract_sub ::
  "'v at_path \<Rightarrow> ('t, 'v, 'a) formats \<Rightarrow> extraction_context \<Rightarrow> 't \<Rightarrow> 'v \<Rightarrow> path \<Rightarrow> exn + 'a"
where
  "extract_sub at_path fmts c type from subpath =
     (let sub = c\<lparr>m_path := m_path c @ subpath\<rparr> in
      case (case at_path from subpath of
              Inl ex \<Rightarrow> Inl ex
            | Inr node \<Rightarrow> extract_into fmts sub type node) of
        Inr into \<Rightarrow> Inr into
      | Inl ex \<Rightarrow> Inl (catch_and_wrap (context_path sub) ex))"

subsection \<open>Reporting a problem\<close>







subsection \<open>The typed wrappers\<close>










section \<open>Theorems\<close>

subsection \<open>Helper lemmas\<close>

lemma write_problem_eq:
  "write_problem os p
     = os @ (if problem_path p \<noteq> []
             then '' at '' @ path_to_string (problem_path p) @ '': ''
             else []) @ problem_message p"
  by (simp add: write_problem_def)

lemma write_problem_lines_concat:
  "write_problem_lines os ps
     = os @ concat (map (\<lambda>p. endl @ '' -''
                           @ (if problem_path p \<noteq> []
                              then '' at '' @ path_to_string (problem_path p) @ '': ''
                              else [])
                           @ problem_message p) ps)"
proof (induction ps arbitrary: os)
  case Nil
  show ?case by simp
next
  case (Cons p ps)
  show ?case
    by (simp only: write_problem_lines.simps Cons.IH write_problem_eq list.map concat.simps
        append_assoc)
qed


lemma catch_and_wrap_not_extraction_error:
  "(\<forall>e. ex \<noteq> Thrown_extraction_error e) \<Longrightarrow>
     \<exists>e'. catch_and_wrap p ex = Thrown_extraction_error e' \<and> error_path e' = p
          \<and> length (error_problems e') = 1 \<and> error_nested_ptr e' = Some ex"
  by (cases ex)
     (simp_all add: make_extraction_error_at_def make_extraction_error_def error_path_def
        error_nested_ptr_def make_problem_def)


subsection \<open>Problems and extraction errors\<close>

text \<open>
  C1. Constructing an extraction error from an empty problem list should leave exactly
  one synthetic problem in \<^verbatim>\<open>problems()\<close>. The constructor stores the list it is
  given: from the empty list the stored list is empty, and only the message speaks of
  an unspecified problem.
\<close>

theorem extraction_error_empty_list:
  "error_problems (make_extraction_error []) = []
   \<and> error_what (make_extraction_error []) = ''Extraction error with unspecified problem''"
  by (simp add: make_extraction_error_def make_extraction_error_errmsg_def)

text \<open>
  C5. After every construction of a problem the stored message is non-empty; an empty
  message given to the constructor is replaced by \<^verbatim>\<open>Unknown problem\<close>, and any
  other message is stored as given.
\<close>

theorem problem_message_nonempty:
  "problem_message (make_problem p message cause)
     = (if message = [] then ''Unknown problem'' else message)
   \<and> problem_message (make_problem p message cause) \<noteq> []
   \<and> problem_message (make_problem_no_cause p message)
     = (if message = [] then ''Unknown problem'' else message)
   \<and> problem_message (make_problem_no_cause p message) \<noteq> []
   \<and> problem_message (make_problem_from_cause p ex) \<noteq> []"
  by (simp add: make_problem_def make_problem_no_cause_def make_problem_from_cause_def)

text \<open>
  C6, as amended. An extraction error with exactly one problem whose path is non-empty
  renders as \<^verbatim>\<open>Extraction error at <path>: <message>\<close>. With more than one
  problem it renders as the header \<^verbatim>\<open><count> extraction errors:\<close> followed by
  one line per problem, in list order; a line is a newline and \<^verbatim>\<open> -\<close>, then
  \<^verbatim>\<open> at <path>: \<close> when the problem's path is non-empty, then the message.
\<close>

theorem errmsg_rendering:
  "(problem_path p \<noteq> [] \<longrightarrow>
      make_extraction_error_errmsg [p]
        = ''Extraction error at '' @ path_to_string (problem_path p) @ '': '' @ problem_message p)
   \<and> (length ps > 1 \<longrightarrow>
      make_extraction_error_errmsg ps
        = to_decimal (length ps) @ '' extraction errors:''
          @ concat (map (\<lambda>p. endl @ '' -''
                           @ (if problem_path p \<noteq> []
                              then '' at '' @ path_to_string (problem_path p) @ '': ''
                              else [])
                           @ problem_message p) ps))"
proof (intro conjI impI)
  assume "problem_path p \<noteq> []"
  then show "make_extraction_error_errmsg [p]
        = ''Extraction error at '' @ path_to_string (problem_path p) @ '': '' @ problem_message p"
    by (simp add: make_extraction_error_errmsg_def write_problem_def)
next
  assume "length ps > 1"
  then have "make_extraction_error_errmsg ps
      = write_problem_lines (to_decimal (length ps) @ '' extraction errors:'') ps"
    by (auto simp add: make_extraction_error_errmsg_def)
  then show "make_extraction_error_errmsg ps
        = to_decimal (length ps) @ '' extraction errors:''
          @ concat (map (\<lambda>p. endl @ '' -''
                           @ (if problem_path p \<noteq> []
                              then '' at '' @ path_to_string (problem_path p) @ '': ''
                              else [])
                           @ problem_message p) ps)"
    by (simp only: write_problem_lines_concat append_assoc)
qed

theorem errmsg_rendering_witness:
  "make_extraction_error_errmsg [Problem [Object_key ''a'', Array_index 12] ''bad'' None]
     = ''Extraction error at .a[12]: bad''
   \<and> make_extraction_error_errmsg
       [Problem [Object_key ''a'', Array_index 12] ''bad'' None, Problem [] ''worse'' None]
     = ''2 extraction errors:'' @ [CHR 0x0A] @ '' - at .a[12]: bad'' @ [CHR 0x0A] @ '' -worse''"
  using errmsg_rendering [of "Problem [Object_key ''a'', Array_index 12] ''bad'' None"
      "[Problem [Object_key ''a'', Array_index 12] ''bad'' None, Problem [] ''worse'' None]"]
  by (simp add: path_to_string_def endl_def to_decimal.simps digit_char_def)

text \<open>
  C6 as stated fails for a single problem with the empty path: the rendering has no
  \<^verbatim>\<open> at <path>: \<close> part at all.
\<close>

theorem errmsg_single_empty_path:
  "make_extraction_error_errmsg [make_problem_no_cause [] ''bad''] = ''Extraction errorbad''
   \<and> make_extraction_error_errmsg [make_problem_no_cause [] ''bad'']
     \<noteq> ''Extraction error at '' @ path_to_string [] @ '': '' @ ''bad''"
  by (simp add: make_extraction_error_errmsg_def write_problem_def make_problem_no_cause_def
      make_problem_def path_to_string_def)

text \<open>
  C7, as amended. A problem constructed from a path and a cause takes the cause's own
  message when the cause is a \<^verbatim>\<open>std::exception\<close> with a non-empty message, and
  \<^verbatim>\<open>Unknown problem\<close> when that message is empty; for a cause of any other type
  the message is \<^verbatim>\<open>Exception with type <name>\<close>. The path and the cause are
  stored as given.
\<close>

theorem problem_from_cause_message:
  "problem_message (make_problem_from_cause p (Std_exception w))
     = (if w = [] then ''Unknown problem'' else w)
   \<and> problem_message (make_problem_from_cause p (Thrown_extraction_error e))
     = (if error_what e = [] then ''Unknown problem'' else error_what e)
   \<and> problem_message (make_problem_from_cause p (Unknown_exception type_name))
     = ''Exception with type '' @ type_name
   \<and> problem_path (make_problem_from_cause p cause) = p
   \<and> problem_nested_ptr (make_problem_from_cause p cause) = Some cause"
  by (simp add: make_problem_from_cause_def make_problem_def)

text \<open>
  C7 as stated fails for a \<^verbatim>\<open>std::exception\<close> whose message is empty: the
  problem's message is not the cause's own.
\<close>

theorem problem_from_cause_empty_message:
  "problem_message (make_problem_from_cause [] (Std_exception [])) = ''Unknown problem''
   \<and> problem_message (make_problem_from_cause [] (Std_exception []))
     \<noteq> message_of_cause (Std_exception [])"
  by (simp add: make_problem_from_cause_def make_problem_def)

subsection \<open>Options\<close>

text \<open>
  C8. A default-constructed \<^verbatim>\<open>extract_options\<close> has failure mode
  \<^verbatim>\<open>fail_immediately\<close>, at most 10 failures, and replaces duplicate keys.
\<close>

theorem default_extract_options_fields:
  "failure_mode default_extract_options = fail_immediately
   \<and> max_failures default_extract_options = 10
   \<and> on_duplicate_key default_extract_options = replace"
  by (simp add: default_extract_options_def)

subsection \<open>Path attribution\<close>

text \<open>
  What the type-erased primitive does guarantee: an extraction error of the registry
  propagates unchanged, a result is returned as it is, and any other exception comes
  out as an extraction error with one problem whose cause is the original exception.
\<close>

lemma extract_into_wrapping:
  "(fmts type from c = Inr into \<longrightarrow> extract_into fmts c type from = Inr into)
   \<and> (fmts type from c = Inl (Thrown_extraction_error e) \<longrightarrow>
        extract_into fmts c type from = Inl (Thrown_extraction_error e))
   \<and> (fmts type from c = Inl ex \<and> (\<forall>e. ex \<noteq> Thrown_extraction_error e) \<longrightarrow>
        (\<exists>e'. extract_into fmts c type from = Inl (Thrown_extraction_error e')
              \<and> length (error_problems e') = 1 \<and> error_nested_ptr e' = Some ex))"
proof (intro conjI impI)
  assume "fmts type from c = Inr into"
  then show "extract_into fmts c type from = Inr into" by (simp add: extract_into_def)
next
  assume "fmts type from c = Inl (Thrown_extraction_error e)"
  then show "extract_into fmts c type from = Inl (Thrown_extraction_error e)"
    by (simp add: extract_into_def)
next
  assume a: "fmts type from c = Inl ex \<and> (\<forall>e. ex \<noteq> Thrown_extraction_error e)"
  then obtain e' where "catch_and_wrap (context_path c) ex = Thrown_extraction_error e'"
      "length (error_problems e') = 1" "error_nested_ptr e' = Some ex"
    using catch_and_wrap_not_extraction_error [of ex "context_path c"] by blast
  with a show "\<exists>e'. extract_into fmts c type from = Inl (Thrown_extraction_error e')
              \<and> length (error_problems e') = 1 \<and> error_nested_ptr e' = Some ex"
    by (simp add: extract_into_def)
qed

text \<open>
  C2. An exception escaping the inner extraction of \<^verbatim>\<open>extract_sub\<close> should be
  attributed to the child's extended path. Narrowing a root context by \<^verbatim>\<open>.a[3]\<close>
  where \<^verbatim>\<open>at_path\<close> throws, the problem of the resulting error has the empty
  path, not \<^verbatim>\<open>.a[3]\<close>.
\<close>

theorem extract_sub_attribution_at_nested_path:
  "extract_sub (\<lambda>v p. Inl (Std_exception ''no such index'')) (\<lambda>t v c. Inr v)
       \<lparr>m_options = default_extract_options, m_problems = [], m_path = []\<rparr>
       () () [Object_key ''a'', Array_index 3]
     = (Inl (Thrown_extraction_error
          (Extraction_error ''Extraction errorno such index''
             [Problem [] ''no such index'' (Some (Std_exception ''no such index''))])) :: exn + unit)"
  by (simp add: extract_sub_def context_path_def make_extraction_error_at_def
      make_extraction_error_def make_extraction_error_errmsg_def write_problem_def
      make_problem_def)

text \<open>
  C3. An exception of the registry that is not an extraction error should be wrapped
  into one attributed to the context's current path. In a child context whose
  \<^verbatim>\<open>_path\<close> is \<^verbatim>\<open>.s\<close>, the problem of the resulting error has the empty path;
  the original exception is kept as its cause.
\<close>

theorem extract_into_attribution_in_child_context:
  "extract_into (\<lambda>t v c. Inl (Std_exception ''unexpected type''))
       \<lparr>m_options = default_extract_options, m_problems = [], m_path = [Object_key ''s'']\<rparr>
       () ()
     = (Inl (Thrown_extraction_error
          (Extraction_error ''Extraction errorunexpected type''
             [Problem [] ''unexpected type'' (Some (Std_exception ''unexpected type''))])) :: exn + unit)"
  by (simp add: extract_into_def context_path_def make_extraction_error_at_def
      make_extraction_error_def make_extraction_error_errmsg_def write_problem_def
      make_problem_def)

text \<open>
  C10. \<^verbatim>\<open>path()\<close> returns the empty path for every context, the child context of
  \<^verbatim>\<open>extract_sub\<close> included, so every error that \<^verbatim>\<open>extract\<close> or
  \<^verbatim>\<open>extract_sub\<close> wraps (from an exception of the registry or of
  \<^verbatim>\<open>at_path\<close> that is not an extraction error) is attributed to the empty path.
\<close>

theorem context_path_always_empty:
  "context_path c = []
   \<and> context_path (c\<lparr>m_path := m_path c @ subpath\<rparr>) = []
   \<and> (fmts type from c = Inl ex \<and> (\<forall>e. ex \<noteq> Thrown_extraction_error e) \<longrightarrow>
        (\<exists>e'. extract_into fmts c type from = Inl (Thrown_extraction_error e')
              \<and> error_path e' = []))
   \<and> (at_path from subpath = Inl ex \<and> (\<forall>e. ex \<noteq> Thrown_extraction_error e) \<longrightarrow>
        (\<exists>e'. extract_sub at_path fmts c type from subpath = Inl (Thrown_extraction_error e')
              \<and> error_path e' = []))
   \<and> (at_path from subpath = Inr node
        \<and> fmts type node (c\<lparr>m_path := m_path c @ subpath\<rparr>) = Inl ex
        \<and> (\<forall>e. ex \<noteq> Thrown_extraction_error e) \<longrightarrow>
        (\<exists>e'. extract_sub at_path fmts c type from subpath = Inl (Thrown_extraction_error e')
              \<and> error_path e' = []))"
proof (intro conjI impI)
  show "context_path c = []" by (simp add: context_path_def)
  show "context_path (c\<lparr>m_path := m_path c @ subpath\<rparr>) = []" by (simp add: context_path_def)
next
  assume a: "fmts type from c = Inl ex \<and> (\<forall>e. ex \<noteq> Thrown_extraction_error e)"
  then obtain e' where "catch_and_wrap [] ex = Thrown_extraction_error e'" "error_path e' = []"
    using catch_and_wrap_not_extraction_error [of ex "[]"] by blast
  with a show "\<exists>e'. extract_into fmts c type from = Inl (Thrown_extraction_error e')
              \<and> error_path e' = []"
    by (simp add: extract_into_def context_path_def)
next
  assume a: "at_path from subpath = Inl ex \<and> (\<forall>e. ex \<noteq> Thrown_extraction_error e)"
  then obtain e' where "catch_and_wrap [] ex = Thrown_extraction_error e'" "error_path e' = []"
    using catch_and_wrap_not_extraction_error [of ex "[]"] by blast
  with a show "\<exists>e'. extract_sub at_path fmts c type from subpath = Inl (Thrown_extraction_error e')
              \<and> error_path e' = []"
    by (simp add: extract_sub_def context_path_def)
next
  assume a: "at_path from subpath = Inr node
        \<and> fmts type node (c\<lparr>m_path := m_path c @ subpath\<rparr>) = Inl ex
        \<and> (\<forall>e. ex \<noteq> Thrown_extraction_error e)"
  then obtain e' where "catch_and_wrap [] ex = Thrown_extraction_error e'" "error_path e' = []"
    using catch_and_wrap_not_extraction_error [of ex "[]"] by blast
  with a show "\<exists>e'. extract_sub at_path fmts c type from subpath = Inl (Thrown_extraction_error e')
              \<and> error_path e' = []"
    by (simp add: extract_sub_def extract_into_def context_path_def)
qed

theorem context_path_always_empty_witness:
  "context_path \<lparr>m_options = default_extract_options, m_problems = [], m_path = [Object_key ''a'']\<rparr> = []
   \<and> (\<exists>e'. extract_into (\<lambda>t v c. (Inl (Unknown_exception ''int'') :: exn + unit))
              \<lparr>m_options = default_extract_options, m_problems = [], m_path = [Object_key ''a'']\<rparr>
              () ()
            = Inl (Thrown_extraction_error e') \<and> error_path e' = [])
   \<and> (\<exists>e'. extract_sub (\<lambda>v p. Inl (Std_exception ''no such key''))
              (\<lambda>t v c. (Inr v :: exn + unit))
              \<lparr>m_options = default_extract_options, m_problems = [], m_path = [Object_key ''a'']\<rparr>
              () () [Array_index 2]
            = Inl (Thrown_extraction_error e') \<and> error_path e' = [])
   \<and> (\<exists>e'. extract_sub (\<lambda>v p. Inr v)
              (\<lambda>t v c. (Inl (Std_exception ''unexpected type'') :: exn + unit))
              \<lparr>m_options = default_extract_options, m_problems = [], m_path = [Object_key ''a'']\<rparr>
              () () [Array_index 2]
            = Inl (Thrown_extraction_error e') \<and> error_path e' = [])"
  using
    context_path_always_empty
      [of "\<lparr>m_options = default_extract_options, m_problems = [], m_path = [Object_key ''a'']\<rparr>"
          "[Array_index 2]"
          "\<lambda>t v c. (Inl (Unknown_exception ''int'') :: exn + unit)" "()" "()" "Unknown_exception ''int''"
          "\<lambda>v p. Inl (Std_exception ''no such key'')" "()"]
    context_path_always_empty
      [of "\<lparr>m_options = default_extract_options, m_problems = [], m_path = [Object_key ''a'']\<rparr>"
          "[Array_index 2]"
          "\<lambda>t v c. (Inr v :: exn + unit)" "()" "()" "Std_exception ''no such key''"
          "\<lambda>v p. Inl (Std_exception ''no such key'')" "()"]
    context_path_always_empty
      [of "\<lparr>m_options = default_extract_options, m_problems = [], m_path = [Object_key ''a'']\<rparr>"
          "[Array_index 2]"
          "\<lambda>t v c. (Inl (Std_exception ''unexpected type'') :: exn + unit)" "()" "()"
          "Std_exception ''unexpected type''"
          "\<lambda>v p. Inr v" "()"]
  by simp

subsection \<open>Reporting a problem\<close>




subsection \<open>The typed wrappers\<close>



end
